theory Spec2Isabelle
  imports Complex_Main
begin

section \<open>Data model\<close>

text \<open>
  Python floats are modelled as \<^typ>\<open>real\<close>: the geometry below is the exact
  arithmetic that the floating-point code approximates, with no rounding.
\<close>

text \<open>What \<^verbatim>\<open>page.rect.width\<close> and \<^verbatim>\<open>page.rect.height\<close> return, in points.\<close>

record point_rect =
  width :: real
  height :: real

text \<open>\<^verbatim>\<open>fitz.Rect(x0, y0, x1, y1)\<close>.\<close>

record rect =
  x0 :: real
  y0 :: real
  x1 :: real
  y1 :: real

text \<open>A page of the source document: its size and an opaque content handle.\<close>

record src_page =
  page_size :: point_rect
  content :: nat

text \<open>One call \<^verbatim>\<open>out_page.show_pdf_page(target, src_doc, pno, rotate=...)\<close>.\<close>

record placement =
  target :: rect
  src_pno :: nat
  rotate :: int

text \<open>A page of the output document: the size it was created with and what was drawn.\<close>

record out_page =
  out_width :: real
  out_height :: real
  shown :: "placement list"

type_synonym bytes = "nat list"

datatype error = IndexError | FitzError string

text \<open>
  The PyMuPDF calls of the program. The library is not part of the repository, so its
  functions are parameters; each one that can raise returns the exception as a value.
\<close>

record fitz_lib =
  fitz_open :: "bytes \<Rightarrow> string \<Rightarrow> error + src_page list"
  convert_to_pdf :: "src_page list \<Rightarrow> error + bytes"
  new_page :: "real \<Rightarrow> real \<Rightarrow> error option"
  show_pdf_page :: "rect \<Rightarrow> src_page list \<Rightarrow> nat \<Rightarrow> int \<Rightarrow> error option"

section \<open>Geometry of one output page\<close>

text \<open>\<^verbatim>\<open>MM_TO_PT = 72.0 / 25.4\<close>\<close>

definition MM_TO_PT :: real where
  "MM_TO_PT = 72 / 25.4"

text \<open>\<^verbatim>\<open>gap_pt = gap_mm * MM_TO_PT\<close>\<close>

definition mm_to_points :: "real \<Rightarrow> real" where
  "mm_to_points gap_mm = gap_mm * MM_TO_PT"

text \<open>\<^verbatim>\<open>rot_w, rot_h = sh, sw\<close>\<close>

definition rotated_dimensions :: "point_rect \<Rightarrow> point_rect" where
  "rotated_dimensions sz = \<lparr>width = height sz, height = width sz\<rparr>"

record layout =
  rot_w :: real
  rot_h :: real
  out_w :: real
  out_h :: real
  left_rect :: rect
  right_rect :: rect

text \<open>The arithmetic of the loop body of \<^verbatim>\<open>process_document_to_two_up\<close>.\<close>

definition two_up_layout :: "point_rect \<Rightarrow> real \<Rightarrow> layout" where
  "two_up_layout sz gap_pt =
     (let rotated = rotated_dimensions sz;
          rw = width rotated;
          rh = height rotated;
          ow = (rw * 2) + gap_pt;
          oh = rh
      in \<lparr>rot_w = rw, rot_h = rh, out_w = ow, out_h = oh,
          left_rect = \<lparr>x0 = 0, y0 = 0, x1 = rw, y1 = rh\<rparr>,
          right_rect = \<lparr>x0 = rw + gap_pt, y0 = 0, x1 = (rw * 2) + gap_pt, y1 = rh\<rparr>\<rparr>)"

text \<open>Extent of a rectangle along each axis, and the area two rectangles share.\<close>

definition rect_width :: "rect \<Rightarrow> real" where
  "rect_width r = x1 r - x0 r"

definition rect_height :: "rect \<Rightarrow> real" where
  "rect_height r = y1 r - y0 r"

definition rect_contains :: "rect \<Rightarrow> real \<times> real \<Rightarrow> bool" where
  "rect_contains r p = (x0 r \<le> fst p \<and> fst p \<le> x1 r \<and> y0 r \<le> snd p \<and> snd p \<le> y1 r)"

definition overlap_area :: "rect \<Rightarrow> rect \<Rightarrow> real" where
  "overlap_area a b =
     max 0 (min (x1 a) (x1 b) - max (x0 a) (x0 b)) *
     max 0 (min (y1 a) (y1 b) - max (y0 a) (y0 b))"

section \<open>Composing a document\<close>

text \<open>
  The body of the loop for page number \<open>pno\<close>: \<^verbatim>\<open>src_doc[pno]\<close>, the layout, a new output
  page of exactly that size, and the source page shown twice, rotated by 90 degrees. An
  exception of any call ends the body with that exception.
\<close>

definition two_up_page :: "fitz_lib \<Rightarrow> src_page list \<Rightarrow> real \<Rightarrow> nat \<Rightarrow> error + out_page" where
  "two_up_page lib src_doc gap_pt pno =
     (if pno < length src_doc then
        (let L = two_up_layout (page_size (src_doc ! pno)) gap_pt in
         case new_page lib (out_w L) (out_h L) of
           Some e \<Rightarrow> Inl e
         | None \<Rightarrow>
             (case show_pdf_page lib (left_rect L) src_doc pno 90 of
                Some e \<Rightarrow> Inl e
              | None \<Rightarrow>
                  (case show_pdf_page lib (right_rect L) src_doc pno 90 of
                     Some e \<Rightarrow> Inl e
                   | None \<Rightarrow>
                       Inr \<lparr>out_width = out_w L, out_height = out_h L,
                            shown = [\<lparr>target = left_rect L, src_pno = pno, rotate = 90\<rparr>,
                                     \<lparr>target = right_rect L, src_pno = pno, rotate = 90\<rparr>]\<rparr>)))
      else Inl IndexError)"

text \<open>
  \<^verbatim>\<open>for pno in range(len(src_doc))\<close>, over the page numbers still to do and the output
  document built so far.
\<close>

fun two_up_pages ::
  "fitz_lib \<Rightarrow> src_page list \<Rightarrow> real \<Rightarrow> nat list \<Rightarrow> out_page list \<Rightarrow> error + out_page list" where
  "two_up_pages lib src_doc gap_pt [] out_doc = Inr out_doc"
| "two_up_pages lib src_doc gap_pt (pno # pnos) out_doc =
     (case two_up_page lib src_doc gap_pt pno of
        Inl e \<Rightarrow> Inl e
      | Inr p \<Rightarrow> two_up_pages lib src_doc gap_pt pnos (out_doc @ [p]))"

text \<open>
  \<^verbatim>\<open>process_document_to_two_up\<close>. The bytes it returns are represented by the output
  document that \<^verbatim>\<open>tobytes\<close> serialises.
\<close>

definition process_document_to_two_up ::
  "fitz_lib \<Rightarrow> src_page list \<Rightarrow> real \<Rightarrow> error + out_page list" where
  "process_document_to_two_up lib src_doc gap_mm =
     (let gap_pt = mm_to_points gap_mm
      in two_up_pages lib src_doc gap_pt [0..<length src_doc] [])"

section \<open>Opening the upload\<close>

text \<open>\<^verbatim>\<open>str.lower\<close> on ASCII letters, and \<^verbatim>\<open>str.endswith\<close>.\<close>

definition lower_char :: "char \<Rightarrow> char" where
  "lower_char c =
     (case map_of (zip ''ABCDEFGHIJKLMNOPQRSTUVWXYZ'' ''abcdefghijklmnopqrstuvwxyz'') c of
        Some l \<Rightarrow> l
      | None \<Rightarrow> c)"

definition lower :: "string \<Rightarrow> string" where
  "lower s = map lower_char s"

definition endswith :: "string \<Rightarrow> string \<Rightarrow> bool" where
  "endswith s suf = (length suf \<le> length s \<and> drop (length s - length suf) s = suf)"

text \<open>\<^verbatim>\<open>_image_file_to_pdf_bytes\<close>: \<^verbatim>\<open>img_doc[0]\<close> raises on a document with no page.\<close>

definition image_file_to_pdf_bytes :: "fitz_lib \<Rightarrow> bytes \<Rightarrow> string \<Rightarrow> error + bytes" where
  "image_file_to_pdf_bytes lib file_bytes filetype =
     (case fitz_open lib file_bytes filetype of
        Inl e \<Rightarrow> Inl e
      | Inr img_doc \<Rightarrow>
          (case img_doc of
             [] \<Rightarrow> Inl IndexError
           | page # _ \<Rightarrow> convert_to_pdf lib img_doc))"

text \<open>\<^verbatim>\<open>_open_as_pdf\<close>\<close>

definition open_as_pdf :: "fitz_lib \<Rightarrow> bytes \<Rightarrow> string \<Rightarrow> error + src_page list" where
  "open_as_pdf lib file_bytes filename =
     (let name_lower = lower filename in
      if endswith name_lower ''.pdf'' then fitz_open lib file_bytes ''pdf''
      else if endswith name_lower ''.png'' \<or> endswith name_lower ''.jpg''
                \<or> endswith name_lower ''.jpeg'' then
        (let filetype = (if endswith name_lower ''.png'' then ''png'' else ''jpg'') in
         case image_file_to_pdf_bytes lib file_bytes filetype of
           Inl e \<Rightarrow> Inl e
         | Inr pdf_bytes \<Rightarrow> fitz_open lib pdf_bytes ''pdf'')
      else
        (case fitz_open lib file_bytes ''pdf'' of
           Inr doc \<Rightarrow> Inr doc
         | Inl _ \<Rightarrow>
             (case image_file_to_pdf_bytes lib file_bytes ''jpg'' of
                Inl e \<Rightarrow> Inl e
              | Inr pdf_bytes \<Rightarrow> fitz_open lib pdf_bytes ''pdf'')))"

section \<open>The upload handler\<close>

text \<open>
  What the page shows after a run of the script: nothing without an upload, the input
  details while the button is not pressed, the download of the output document, or the
  message of \<^verbatim>\<open>st.error\<close> for the exception that the \<^verbatim>\<open>try\<close> block caught.
\<close>

datatype outcome = Idle | Loaded | Done "out_page list" | Failed error

definition upload_handler ::
  "fitz_lib \<Rightarrow> (bytes \<times> string) option \<Rightarrow> bool \<Rightarrow> real \<Rightarrow> outcome" where
  "upload_handler lib uploaded pressed gap_mm =
     (case uploaded of
        None \<Rightarrow> Idle
      | Some (file_bytes, name) \<Rightarrow>
          (case open_as_pdf lib file_bytes name of
             Inl e \<Rightarrow> Failed e
           | Inr src_pdf \<Rightarrow>
               if pressed then
                 (case process_document_to_two_up lib src_pdf gap_mm of
                    Inl e \<Rightarrow> Failed e
                  | Inr out_pdf_bytes \<Rightarrow> Done out_pdf_bytes)
               else Loaded))"

section \<open>Library behaviours and documents of the examples\<close>

text \<open>
  A library on which every call succeeds and every file opens as \<open>doc\<close>; one that
  opens no file; one whose \<^verbatim>\<open>show_pdf_page\<close> raises on source page \<open>k\<close>; and a document
  of three pages of different sizes.
\<close>

definition ok_lib :: "src_page list \<Rightarrow> fitz_lib" where
  "ok_lib doc = \<lparr>fitz_open = (\<lambda>b t. Inr doc), convert_to_pdf = (\<lambda>d. Inr []),
     new_page = (\<lambda>w h. None), show_pdf_page = (\<lambda>r d pno a. None)\<rparr>"

definition corrupt_lib :: fitz_lib where
  "corrupt_lib = \<lparr>fitz_open = (\<lambda>b t. Inl (FitzError ''cannot open'')),
     convert_to_pdf = (\<lambda>d. Inr []),
     new_page = (\<lambda>w h. None), show_pdf_page = (\<lambda>r d pno a. None)\<rparr>"

definition bad_page_lib :: "src_page list \<Rightarrow> nat \<Rightarrow> fitz_lib" where
  "bad_page_lib doc k = \<lparr>fitz_open = (\<lambda>b t. Inr doc), convert_to_pdf = (\<lambda>d. Inr []),
     new_page = (\<lambda>w h. None),
     show_pdf_page = (\<lambda>r d pno a. if pno = k then Some (FitzError ''bad page'') else None)\<rparr>"

definition three_pages :: "src_page list" where
  "three_pages = [\<lparr>page_size = \<lparr>width = 210, height = 297\<rparr>, content = 0\<rparr>,
                  \<lparr>page_size = \<lparr>width = 100, height = 100\<rparr>, content = 1\<rparr>,
                  \<lparr>page_size = \<lparr>width = 0, height = 0\<rparr>, content = 2\<rparr>]"

section \<open>The loop\<close>

lemmas layout_defs = two_up_layout_def rotated_dimensions_def mm_to_points_def MM_TO_PT_def Let_def

lemmas run_defs = process_document_to_two_up_def two_up_page_def Let_def

lemmas open_defs = open_as_pdf_def image_file_to_pdf_bytes_def lower_def lower_char_def
  endswith_def

text \<open>
  What one pass of the loop body returns, and where its exceptions come from.
\<close>

lemma two_up_page_Inr:
  "two_up_page lib src_doc gap_pt pno = Inr p \<Longrightarrow>
   pno < length src_doc \<and>
   p = (let L = two_up_layout (page_size (src_doc ! pno)) gap_pt
        in \<lparr>out_width = out_w L, out_height = out_h L,
            shown = [\<lparr>target = left_rect L, src_pno = pno, rotate = 90\<rparr>,
                     \<lparr>target = right_rect L, src_pno = pno, rotate = 90\<rparr>]\<rparr>)"
  by (auto simp: two_up_page_def Let_def split: if_splits option.splits)

lemma two_up_page_Inl:
  "two_up_page lib src_doc gap_pt pno = Inl e \<Longrightarrow> pno < length src_doc \<Longrightarrow>
   (let L = two_up_layout (page_size (src_doc ! pno)) gap_pt
    in new_page lib (out_w L) (out_h L) = Some e \<or>
       show_pdf_page lib (left_rect L) src_doc pno 90 = Some e \<or>
       show_pdf_page lib (right_rect L) src_doc pno 90 = Some e)"
  by (auto simp: two_up_page_def Let_def split: if_splits option.splits)

lemma two_up_pages_Inr:
  "two_up_pages lib src_doc gap_pt pnos out_doc = Inr out \<Longrightarrow>
   (\<exists>ps. out = out_doc @ ps \<and> length ps = length pnos \<and>
         (\<forall>k<length pnos. two_up_page lib src_doc gap_pt (pnos ! k) = Inr (ps ! k)))"
proof (induction pnos arbitrary: out_doc)
  case Nil
  then show ?case by simp
next
  case (Cons pno pnos)
  then obtain p where p: "two_up_page lib src_doc gap_pt pno = Inr p"
    and rest: "two_up_pages lib src_doc gap_pt pnos (out_doc @ [p]) = Inr out"
    by (auto split: sum.splits)
  from Cons.IH [OF rest] obtain ps where ps: "out = (out_doc @ [p]) @ ps"
    "length ps = length pnos"
    "\<forall>k<length pnos. two_up_page lib src_doc gap_pt (pnos ! k) = Inr (ps ! k)"
    by blast
  have "\<forall>k<length (pno # pnos). two_up_page lib src_doc gap_pt ((pno # pnos) ! k) = Inr ((p # ps) ! k)"
    using p ps(3) by (auto simp: nth_Cons split: nat.splits)
  then show ?case using ps(1,2) by (intro exI [of _ "p # ps"]) simp
qed

lemma two_up_pages_Inl:
  "two_up_pages lib src_doc gap_pt pnos out_doc = Inl e \<Longrightarrow>
   \<exists>pno \<in> set pnos. two_up_page lib src_doc gap_pt pno = Inl e"
  by (induction pnos arbitrary: out_doc) (auto split: sum.splits)

lemma two_up_pages_fails:
  "pno \<in> set pnos \<Longrightarrow> two_up_page lib src_doc gap_pt pno = Inl e \<Longrightarrow>
   \<exists>e'. two_up_pages lib src_doc gap_pt pnos out_doc = Inl e'"
  by (induction pnos arbitrary: out_doc) (auto split: sum.splits)

lemma process_Inr:
  assumes "process_document_to_two_up lib src_doc gap_mm = Inr out"
  shows "length out = length src_doc"
    and "\<And>i. i < length src_doc \<Longrightarrow>
           two_up_page lib src_doc (mm_to_points gap_mm) i = Inr (out ! i)"
proof -
  from assms obtain ps where ps: "out = [] @ ps" "length ps = length [0..<length src_doc]"
    "\<forall>k<length [0..<length src_doc].
        two_up_page lib src_doc (mm_to_points gap_mm) ([0..<length src_doc] ! k) = Inr (ps ! k)"
    unfolding process_document_to_two_up_def Let_def by (blast dest: two_up_pages_Inr)
  show "length out = length src_doc" using ps by simp
  show "two_up_page lib src_doc (mm_to_points gap_mm) i = Inr (out ! i)"
    if "i < length src_doc" for i
    using ps that by simp
qed

lemma process_Inl:
  assumes "process_document_to_two_up lib src_doc gap_mm = Inl e"
  shows "\<exists>pno<length src_doc. two_up_page lib src_doc (mm_to_points gap_mm) pno = Inl e"
  using two_up_pages_Inl [of lib src_doc "mm_to_points gap_mm" "[0..<length src_doc]" "[]" e] assms
  unfolding process_document_to_two_up_def Let_def by auto

lemma process_fails:
  assumes "pno < length src_doc" "two_up_page lib src_doc (mm_to_points gap_mm) pno = Inl e"
  shows "\<exists>e'. process_document_to_two_up lib src_doc gap_mm = Inl e'"
  using two_up_pages_fails [of pno "[0..<length src_doc]" lib src_doc "mm_to_points gap_mm" e "[]"] assms
  unfolding process_document_to_two_up_def Let_def by auto

section \<open>The geometry\<close>

text \<open>
  C1. For every source page of size (w, h) and every gap gapMm >= 0 the layout has
  rotated dimensions (h, w), gapPt = gapMm * 72 / 25.4, output width 2 * rotW + gapPt,
  output height rotH, left rectangle (0, 0, rotW, rotH) and right rectangle
  (rotW + gapPt, 0, 2 * rotW + gapPt, rotH).
\<close>

theorem two_up_layout_formulas:
  assumes "0 \<le> gapMm"
  shows "let L = two_up_layout \<lparr>width = w, height = h\<rparr> (mm_to_points gapMm);
             gapPt = gapMm * 72 / 25.4
         in mm_to_points gapMm = gapPt \<and>
            rot_w L = h \<and> rot_h L = w \<and>
            out_w L = 2 * rot_w L + gapPt \<and> out_h L = rot_h L \<and>
            left_rect L = \<lparr>x0 = 0, y0 = 0, x1 = rot_w L, y1 = rot_h L\<rparr> \<and>
            right_rect L = \<lparr>x0 = rot_w L + gapPt, y0 = 0,
                             x1 = 2 * rot_w L + gapPt, y1 = rot_h L\<rparr>"
  by (simp add: two_up_layout_def rotated_dimensions_def mm_to_points_def MM_TO_PT_def Let_def)

theorem two_up_layout_formulas_witness:
  "(0::real) \<le> 3 \<and>
   (let L = two_up_layout \<lparr>width = 210, height = 297\<rparr> (mm_to_points 3)
    in rot_w L = 297 \<and> rot_h L = 210 \<and>
       out_w L = 2 * 297 + 3 * 72 / 25.4 \<and> out_h L = 210 \<and>
       left_rect L = \<lparr>x0 = 0, y0 = 0, x1 = 297, y1 = 210\<rparr> \<and>
       right_rect L = \<lparr>x0 = 297 + 3 * 72 / 25.4, y0 = 0,
                        x1 = 2 * 297 + 3 * 72 / 25.4, y1 = 210\<rparr>)"
  using two_up_layout_formulas [of 3 210 297] by (simp add: Let_def)

text \<open>
  C2. For every source page size and every gapMm >= 0 the two placement rectangles have
  the width and the height of the rotated page, the horizontal gap between them is
  exactly the gap in points, and they tile the output page with no margin: the output
  width is the right edge of the right rectangle, the output height is the bottom edge
  of both, and the left rectangle starts at the origin.
\<close>

theorem two_up_layout_tiling:
  assumes "0 \<le> gapMm"
  shows "let sz = \<lparr>width = w, height = h\<rparr>;
             L = two_up_layout sz (mm_to_points gapMm)
         in rect_width (left_rect L) = width (rotated_dimensions sz) \<and>
            rect_width (right_rect L) = width (rotated_dimensions sz) \<and>
            rect_height (left_rect L) = height (rotated_dimensions sz) \<and>
            rect_height (right_rect L) = height (rotated_dimensions sz) \<and>
            x0 (right_rect L) - x1 (left_rect L) = mm_to_points gapMm \<and>
            out_w L = x1 (right_rect L) \<and>
            out_h L = y1 (left_rect L) \<and> y1 (left_rect L) = y1 (right_rect L) \<and>
            x0 (left_rect L) = 0 \<and> y0 (left_rect L) = 0 \<and> y0 (right_rect L) = 0"
  by (simp add: layout_defs rect_width_def rect_height_def)

theorem two_up_layout_tiling_witness:
  "(0::real) \<le> 3 \<and>
   rect_width (left_rect (two_up_layout \<lparr>width = 210, height = 297\<rparr> (mm_to_points 3))) = 297 \<and>
   rect_width (right_rect (two_up_layout \<lparr>width = 210, height = 297\<rparr> (mm_to_points 3))) = 297 \<and>
   rect_height (left_rect (two_up_layout \<lparr>width = 210, height = 297\<rparr> (mm_to_points 3))) = 210 \<and>
   rect_height (right_rect (two_up_layout \<lparr>width = 210, height = 297\<rparr> (mm_to_points 3))) = 210 \<and>
   x0 (right_rect (two_up_layout \<lparr>width = 210, height = 297\<rparr> (mm_to_points 3))) -
     x1 (left_rect (two_up_layout \<lparr>width = 210, height = 297\<rparr> (mm_to_points 3))) = mm_to_points 3"
  using two_up_layout_tiling [of 3 210 297]
  by (simp add: Let_def rotated_dimensions_def)

text \<open>
  C3. For a page whose rotated dimensions are positive: with a positive gap no point
  lies in both rectangles; with gap 0 the rectangles share exactly the line
  x = leftRect.x1 = rightRect.x0 and the area they share is zero. A 100 x 100 page with
  gap 0 gives leftRect = (0, 0, 100, 100) and rightRect = (100, 0, 200, 100).
\<close>

theorem two_up_layout_overlap:
  assumes "0 < width (rotated_dimensions \<lparr>width = w, height = h\<rparr>)"
    and "0 < height (rotated_dimensions \<lparr>width = w, height = h\<rparr>)"
  shows "let L = two_up_layout \<lparr>width = w, height = h\<rparr> (mm_to_points gapMm)
         in (0 < mm_to_points gapMm \<longrightarrow>
               (\<forall>p. \<not> (rect_contains (left_rect L) p \<and> rect_contains (right_rect L) p)) \<and>
               overlap_area (left_rect L) (right_rect L) = 0) \<and>
            (mm_to_points gapMm = 0 \<longrightarrow>
               x1 (left_rect L) = x0 (right_rect L) \<and>
               (\<forall>p. rect_contains (left_rect L) p \<and> rect_contains (right_rect L) p \<longleftrightarrow>
                    fst p = x1 (left_rect L) \<and> 0 \<le> snd p \<and> snd p \<le> rot_h L) \<and>
               overlap_area (left_rect L) (right_rect L) = 0) \<and>
            two_up_layout \<lparr>width = 100, height = 100\<rparr> (mm_to_points 0) =
              \<lparr>rot_w = 100, rot_h = 100, out_w = 200, out_h = 100,
               left_rect = \<lparr>x0 = 0, y0 = 0, x1 = 100, y1 = 100\<rparr>,
               right_rect = \<lparr>x0 = 100, y0 = 0, x1 = 200, y1 = 100\<rparr>\<rparr>"
  using assms
  by (auto simp: layout_defs rect_contains_def overlap_area_def)

theorem two_up_layout_overlap_witness:
  "0 < width (rotated_dimensions \<lparr>width = 100, height = 100\<rparr>) \<and>
   0 < height (rotated_dimensions \<lparr>width = 100, height = 100\<rparr>) \<and>
   mm_to_points 0 = 0 \<and>
   x1 (left_rect (two_up_layout \<lparr>width = 100, height = 100\<rparr> (mm_to_points 0))) =
     x0 (right_rect (two_up_layout \<lparr>width = 100, height = 100\<rparr> (mm_to_points 0))) \<and>
   overlap_area (left_rect (two_up_layout \<lparr>width = 100, height = 100\<rparr> (mm_to_points 0)))
     (right_rect (two_up_layout \<lparr>width = 100, height = 100\<rparr> (mm_to_points 0))) = 0 \<and>
   rect_contains (left_rect (two_up_layout \<lparr>width = 100, height = 100\<rparr> (mm_to_points 0))) (100, 50) \<and>
   rect_contains (right_rect (two_up_layout \<lparr>width = 100, height = 100\<rparr> (mm_to_points 0))) (100, 50) \<and>
   0 < width (rotated_dimensions \<lparr>width = 210, height = 297\<rparr>) \<and>
   0 < height (rotated_dimensions \<lparr>width = 210, height = 297\<rparr>) \<and>
   0 < mm_to_points 3 \<and>
   overlap_area (left_rect (two_up_layout \<lparr>width = 210, height = 297\<rparr> (mm_to_points 3)))
     (right_rect (two_up_layout \<lparr>width = 210, height = 297\<rparr> (mm_to_points 3))) = 0 \<and>
   \<not> rect_contains (right_rect (two_up_layout \<lparr>width = 210, height = 297\<rparr> (mm_to_points 3))) (297, 50)"
  using two_up_layout_overlap [of 100 100 0] two_up_layout_overlap [of 210 297 3]
  by (simp add: layout_defs rect_contains_def overlap_area_def)

text \<open>
  C4. The rotation-aware dimension mapping swaps width and height; applied twice it
  returns the original dimensions, and a square page maps to itself.
\<close>

theorem rotated_dimensions_swap:
  "rotated_dimensions sz = \<lparr>width = height sz, height = width sz\<rparr> \<and>
   rotated_dimensions (rotated_dimensions sz) = sz \<and>
   (width sz = height sz \<longrightarrow> rotated_dimensions sz = sz)"
  by (simp add: rotated_dimensions_def)

theorem rotated_dimensions_swap_witness:
  "width \<lparr>width = 100::real, height = 100::real\<rparr> = height \<lparr>width = 100::real, height = 100::real\<rparr> \<and>
   rotated_dimensions \<lparr>width = 100, height = 100\<rparr> = \<lparr>width = 100, height = 100\<rparr> \<and>
   rotated_dimensions (rotated_dimensions \<lparr>width = 210, height = 297\<rparr>) = \<lparr>width = 210, height = 297\<rparr>"
  using rotated_dimensions_swap [of "\<lparr>width = 100, height = 100\<rparr>"]
    rotated_dimensions_swap [of "\<lparr>width = 210, height = 297\<rparr>"]
  by (simp add: rotated_dimensions_def)

text \<open>
  C5. For the degenerate page (0, 0) and every gapMm >= 0 the layout has
  output width mmToPoints(gapMm) and output height 0; the left rectangle is the point
  (0, 0) and the right rectangle is the point (gapPt, 0), each of width and height 0,
  and the two are equal exactly when the gap is 0. The code raises nothing of its own:
  when the three library calls for the page succeed, the document is produced.
\<close>

theorem degenerate_page_layout:
  assumes "0 \<le> gapMm"
  shows "let pg = \<lparr>page_size = \<lparr>width = 0, height = 0\<rparr>, content = c\<rparr>;
             g = mm_to_points gapMm;
             L = two_up_layout (page_size pg) g
         in out_w L = g \<and> out_h L = 0 \<and>
            left_rect L = \<lparr>x0 = 0, y0 = 0, x1 = 0, y1 = 0\<rparr> \<and>
            right_rect L = \<lparr>x0 = g, y0 = 0, x1 = g, y1 = 0\<rparr> \<and>
            rect_width (left_rect L) = 0 \<and> rect_height (left_rect L) = 0 \<and>
            rect_width (right_rect L) = 0 \<and> rect_height (right_rect L) = 0 \<and>
            (left_rect L = right_rect L \<longleftrightarrow> gapMm = 0) \<and>
            (new_page lib g 0 = None \<and>
             show_pdf_page lib (left_rect L) [pg] 0 90 = None \<and>
             show_pdf_page lib (right_rect L) [pg] 0 90 = None \<longrightarrow>
               process_document_to_two_up lib [pg] gapMm =
                 Inr [\<lparr>out_width = g, out_height = 0,
                       shown = [\<lparr>target = left_rect L, src_pno = 0, rotate = 90\<rparr>,
                                \<lparr>target = right_rect L, src_pno = 0, rotate = 90\<rparr>]\<rparr>])"
  by (auto simp: layout_defs rect_width_def rect_height_def process_document_to_two_up_def
      two_up_page_def)

theorem degenerate_page_layout_witness:
  "(0::real) \<le> 3 \<and>
   new_page (ok_lib []) (mm_to_points 3) 0 = None \<and>
   show_pdf_page (ok_lib []) \<lparr>x0 = 0, y0 = 0, x1 = 0, y1 = 0\<rparr>
     [\<lparr>page_size = \<lparr>width = 0, height = 0\<rparr>, content = 7\<rparr>] 0 90 = None \<and>
   show_pdf_page (ok_lib []) \<lparr>x0 = mm_to_points 3, y0 = 0, x1 = mm_to_points 3, y1 = 0\<rparr>
     [\<lparr>page_size = \<lparr>width = 0, height = 0\<rparr>, content = 7\<rparr>] 0 90 = None \<and>
   process_document_to_two_up (ok_lib [])
       [\<lparr>page_size = \<lparr>width = 0, height = 0\<rparr>, content = 7\<rparr>] 3 =
     Inr [\<lparr>out_width = mm_to_points 3, out_height = 0,
           shown = [\<lparr>target = \<lparr>x0 = 0, y0 = 0, x1 = 0, y1 = 0\<rparr>, src_pno = 0, rotate = 90\<rparr>,
                    \<lparr>target = \<lparr>x0 = mm_to_points 3, y0 = 0, x1 = mm_to_points 3, y1 = 0\<rparr>,
                     src_pno = 0, rotate = 90\<rparr>]\<rparr>] \<and>
   left_rect (two_up_layout \<lparr>width = 0, height = 0\<rparr> (mm_to_points 3)) =
     \<lparr>x0 = 0, y0 = 0, x1 = 0, y1 = 0\<rparr> \<and>
   right_rect (two_up_layout \<lparr>width = 0, height = 0\<rparr> (mm_to_points 3)) =
     \<lparr>x0 = mm_to_points 3, y0 = 0, x1 = mm_to_points 3, y1 = 0\<rparr>"
  using degenerate_page_layout [of 3 7 "ok_lib []"]
  by (simp add: Let_def ok_lib_def two_up_layout_def rotated_dimensions_def)

text \<open>
  The two rectangles of the degenerate page are not equal when the gap is positive:
  at gapMm = 1 the right one lies at x = 72 / 25.4.
\<close>

theorem degenerate_rects_differ:
  "left_rect (two_up_layout \<lparr>width = 0, height = 0\<rparr> (mm_to_points 1)) \<noteq>
   right_rect (two_up_layout \<lparr>width = 0, height = 0\<rparr> (mm_to_points 1))"
  by (simp add: layout_defs)

section \<open>The document\<close>

text \<open>
  C6. For every source document and gapMm >= 0 a run that returns produces one output
  page per source page, in the order of the source: output page i has the size and the
  two placements of the layout of source page i and the gap, showing source page i, and
  so depends on no other page. The run returns whenever no library call of any page
  raises.
\<close>

theorem compose_page_for_page:
  assumes "0 \<le> gapMm"
  shows "(process_document_to_two_up lib src_doc gapMm = Inr out \<longrightarrow>
            length out = length src_doc \<and>
            (\<forall>i<length src_doc.
               let L = two_up_layout (page_size (src_doc ! i)) (mm_to_points gapMm)
               in out ! i =
                    \<lparr>out_width = out_w L, out_height = out_h L,
                     shown = [\<lparr>target = left_rect L, src_pno = i, rotate = 90\<rparr>,
                              \<lparr>target = right_rect L, src_pno = i, rotate = 90\<rparr>]\<rparr>)) \<and>
         ((\<forall>i<length src_doc. \<forall>e. two_up_page lib src_doc (mm_to_points gapMm) i \<noteq> Inl e) \<longrightarrow>
            (\<exists>out'. process_document_to_two_up lib src_doc gapMm = Inr out'))"
proof (intro conjI impI)
  assume ok: "process_document_to_two_up lib src_doc gapMm = Inr out"
  show "length out = length src_doc" by (rule process_Inr(1) [OF ok])
  show "\<forall>i<length src_doc.
          let L = two_up_layout (page_size (src_doc ! i)) (mm_to_points gapMm)
          in out ! i =
               \<lparr>out_width = out_w L, out_height = out_h L,
                shown = [\<lparr>target = left_rect L, src_pno = i, rotate = 90\<rparr>,
                         \<lparr>target = right_rect L, src_pno = i, rotate = 90\<rparr>]\<rparr>"
  proof (intro allI impI)
    fix i assume "i < length src_doc"
    from two_up_page_Inr [OF process_Inr(2) [OF ok this]]
    show "let L = two_up_layout (page_size (src_doc ! i)) (mm_to_points gapMm)
          in out ! i =
               \<lparr>out_width = out_w L, out_height = out_h L,
                shown = [\<lparr>target = left_rect L, src_pno = i, rotate = 90\<rparr>,
                         \<lparr>target = right_rect L, src_pno = i, rotate = 90\<rparr>]\<rparr>"
      by simp
  qed
next
  assume none: "\<forall>i<length src_doc. \<forall>e. two_up_page lib src_doc (mm_to_points gapMm) i \<noteq> Inl e"
  show "\<exists>out'. process_document_to_two_up lib src_doc gapMm = Inr out'"
  proof (cases "process_document_to_two_up lib src_doc gapMm")
    case (Inl e)
    from process_Inl [OF this] none show ?thesis by blast
  next
    case (Inr out')
    then show ?thesis by blast
  qed
qed

theorem compose_page_for_page_witness:
  "(0::real) \<le> 3 \<and>
   process_document_to_two_up (ok_lib three_pages) three_pages 3 =
     Inr [\<lparr>out_width = 2 * 297 + mm_to_points 3, out_height = 210,
           shown = [\<lparr>target = \<lparr>x0 = 0, y0 = 0, x1 = 297, y1 = 210\<rparr>, src_pno = 0, rotate = 90\<rparr>,
                    \<lparr>target = \<lparr>x0 = 297 + mm_to_points 3, y0 = 0,
                               x1 = 2 * 297 + mm_to_points 3, y1 = 210\<rparr>,
                     src_pno = 0, rotate = 90\<rparr>]\<rparr>,
          \<lparr>out_width = 2 * 100 + mm_to_points 3, out_height = 100,
           shown = [\<lparr>target = \<lparr>x0 = 0, y0 = 0, x1 = 100, y1 = 100\<rparr>, src_pno = 1, rotate = 90\<rparr>,
                    \<lparr>target = \<lparr>x0 = 100 + mm_to_points 3, y0 = 0,
                               x1 = 2 * 100 + mm_to_points 3, y1 = 100\<rparr>,
                     src_pno = 1, rotate = 90\<rparr>]\<rparr>,
          \<lparr>out_width = mm_to_points 3, out_height = 0,
           shown = [\<lparr>target = \<lparr>x0 = 0, y0 = 0, x1 = 0, y1 = 0\<rparr>, src_pno = 2, rotate = 90\<rparr>,
                    \<lparr>target = \<lparr>x0 = mm_to_points 3, y0 = 0, x1 = mm_to_points 3, y1 = 0\<rparr>,
                     src_pno = 2, rotate = 90\<rparr>]\<rparr>] \<and>
   length three_pages = 3"
  using compose_page_for_page [of 3 "ok_lib three_pages" three_pages
      "[\<lparr>out_width = 2 * 297 + mm_to_points 3, out_height = 210,
           shown = [\<lparr>target = \<lparr>x0 = 0, y0 = 0, x1 = 297, y1 = 210\<rparr>, src_pno = 0, rotate = 90\<rparr>,
                    \<lparr>target = \<lparr>x0 = 297 + mm_to_points 3, y0 = 0,
                               x1 = 2 * 297 + mm_to_points 3, y1 = 210\<rparr>,
                     src_pno = 0, rotate = 90\<rparr>]\<rparr>,
          \<lparr>out_width = 2 * 100 + mm_to_points 3, out_height = 100,
           shown = [\<lparr>target = \<lparr>x0 = 0, y0 = 0, x1 = 100, y1 = 100\<rparr>, src_pno = 1, rotate = 90\<rparr>,
                    \<lparr>target = \<lparr>x0 = 100 + mm_to_points 3, y0 = 0,
                               x1 = 2 * 100 + mm_to_points 3, y1 = 100\<rparr>,
                     src_pno = 1, rotate = 90\<rparr>]\<rparr>,
          \<lparr>out_width = mm_to_points 3, out_height = 0,
           shown = [\<lparr>target = \<lparr>x0 = 0, y0 = 0, x1 = 0, y1 = 0\<rparr>, src_pno = 2, rotate = 90\<rparr>,
                    \<lparr>target = \<lparr>x0 = mm_to_points 3, y0 = 0, x1 = mm_to_points 3, y1 = 0\<rparr>,
                     src_pno = 2, rotate = 90\<rparr>]\<rparr>]"]
  by (simp add: run_defs ok_lib_def three_pages_def two_up_layout_def rotated_dimensions_def)

text \<open>
  C7. The conversion is points = mm * 72 / 25.4, maps 0 to 0 and is strictly
  increasing. It is applied to the gap alone: in every output page the source page's
  width and height enter as they are, in points, and the gap enters as its conversion.
\<close>

theorem mm_to_points_conversion:
  "mm_to_points mm = mm * 72 / 25.4 \<and>
   mm_to_points 0 = 0 \<and>
   (a < b \<longrightarrow> mm_to_points a < mm_to_points b) \<and>
   (process_document_to_two_up lib src_doc mm = Inr out \<longrightarrow>
      (\<forall>i<length src_doc.
         out_width (out ! i) = 2 * height (page_size (src_doc ! i)) + mm_to_points mm \<and>
         out_height (out ! i) = width (page_size (src_doc ! i)) \<and>
         map target (shown (out ! i)) =
           [\<lparr>x0 = 0, y0 = 0, x1 = height (page_size (src_doc ! i)),
              y1 = width (page_size (src_doc ! i))\<rparr>,
            \<lparr>x0 = height (page_size (src_doc ! i)) + mm_to_points mm, y0 = 0,
              x1 = 2 * height (page_size (src_doc ! i)) + mm_to_points mm,
              y1 = width (page_size (src_doc ! i))\<rparr>]))"
proof -
  have conv: "mm_to_points mm = mm * 72 / 25.4" "mm_to_points 0 = 0"
    by (simp_all add: mm_to_points_def MM_TO_PT_def)
  have mono: "a < b \<longrightarrow> mm_to_points a < mm_to_points b"
    by (simp add: mm_to_points_def MM_TO_PT_def)
  have pages: "out_width (out ! i) = 2 * height (page_size (src_doc ! i)) + mm_to_points mm \<and>
         out_height (out ! i) = width (page_size (src_doc ! i)) \<and>
         map target (shown (out ! i)) =
           [\<lparr>x0 = 0, y0 = 0, x1 = height (page_size (src_doc ! i)),
              y1 = width (page_size (src_doc ! i))\<rparr>,
            \<lparr>x0 = height (page_size (src_doc ! i)) + mm_to_points mm, y0 = 0,
              x1 = 2 * height (page_size (src_doc ! i)) + mm_to_points mm,
              y1 = width (page_size (src_doc ! i))\<rparr>]"
    if ok: "process_document_to_two_up lib src_doc mm = Inr out" and i: "i < length src_doc" for i
  proof -
    from process_Inr(2) [OF ok i]
    have "two_up_page lib src_doc (mm_to_points mm) i = Inr (out ! i)" .
    from two_up_page_Inr [OF this] show ?thesis
      by (simp add: two_up_layout_def rotated_dimensions_def Let_def)
  qed
  from conv mono pages show ?thesis by blast
qed

theorem mm_to_points_conversion_witness:
  "(1::real) < 2 \<and> mm_to_points 1 < mm_to_points 2 \<and>
   mm_to_points 3 = 3 * 72 / 25.4 \<and>
   process_document_to_two_up (ok_lib [])
       [\<lparr>page_size = \<lparr>width = 210, height = 297\<rparr>, content = 0\<rparr>] 3 =
     Inr [\<lparr>out_width = 2 * 297 + mm_to_points 3, out_height = 210,
           shown = [\<lparr>target = \<lparr>x0 = 0, y0 = 0, x1 = 297, y1 = 210\<rparr>, src_pno = 0, rotate = 90\<rparr>,
                    \<lparr>target = \<lparr>x0 = 297 + mm_to_points 3, y0 = 0,
                               x1 = 2 * 297 + mm_to_points 3, y1 = 210\<rparr>,
                     src_pno = 0, rotate = 90\<rparr>]\<rparr>]"
  using mm_to_points_conversion [of 1 1 2 "ok_lib []" "[]" "[]"]
    mm_to_points_conversion [of 3 1 2 "ok_lib []"
      "[\<lparr>page_size = \<lparr>width = 210, height = 297\<rparr>, content = 0\<rparr>]"
      "[\<lparr>out_width = 2 * 297 + mm_to_points 3, out_height = 210,
           shown = [\<lparr>target = \<lparr>x0 = 0, y0 = 0, x1 = 297, y1 = 210\<rparr>, src_pno = 0, rotate = 90\<rparr>,
                    \<lparr>target = \<lparr>x0 = 297 + mm_to_points 3, y0 = 0,
                               x1 = 2 * 297 + mm_to_points 3, y1 = 210\<rparr>,
                     src_pno = 0, rotate = 90\<rparr>]\<rparr>]"]
  by (simp add: run_defs ok_lib_def two_up_layout_def rotated_dimensions_def)

text \<open>
  C8. A loader error, or an error on any page of the document, ends the run with the
  error message alone. A run that offers an output document has opened the source and
  composed every one of its pages.
\<close>

theorem upload_all_or_nothing:
  "(open_as_pdf lib file_bytes name = Inl e \<longrightarrow>
      upload_handler lib (Some (file_bytes, name)) pressed gap_mm = Failed e) \<and>
   (open_as_pdf lib file_bytes name = Inr src_doc \<and> pno < length src_doc \<and>
    two_up_page lib src_doc (mm_to_points gap_mm) pno = Inl e \<longrightarrow>
      (\<exists>e' pno'. pno' < length src_doc \<and>
         two_up_page lib src_doc (mm_to_points gap_mm) pno' = Inl e' \<and>
         upload_handler lib (Some (file_bytes, name)) True gap_mm = Failed e')) \<and>
   (upload_handler lib (Some (file_bytes, name)) pressed gap_mm = Done out \<longrightarrow>
      (\<exists>src_doc. open_as_pdf lib file_bytes name = Inr src_doc \<and>
         length out = length src_doc \<and>
         (\<forall>i<length src_doc. two_up_page lib src_doc (mm_to_points gap_mm) i = Inr (out ! i))))"
proof (intro conjI impI)
  assume "open_as_pdf lib file_bytes name = Inl e"
  then show "upload_handler lib (Some (file_bytes, name)) pressed gap_mm = Failed e"
    by (simp add: upload_handler_def)
next
  assume a: "open_as_pdf lib file_bytes name = Inr src_doc \<and> pno < length src_doc \<and>
    two_up_page lib src_doc (mm_to_points gap_mm) pno = Inl e"
  then obtain e' where e': "process_document_to_two_up lib src_doc gap_mm = Inl e'"
    using process_fails by blast
  from process_Inl [OF e'] obtain pno' where
    "pno' < length src_doc" "two_up_page lib src_doc (mm_to_points gap_mm) pno' = Inl e'"
    by blast
  moreover have "upload_handler lib (Some (file_bytes, name)) True gap_mm = Failed e'"
    using a e' by (simp add: upload_handler_def)
  ultimately show "\<exists>e' pno'. pno' < length src_doc \<and>
         two_up_page lib src_doc (mm_to_points gap_mm) pno' = Inl e' \<and>
         upload_handler lib (Some (file_bytes, name)) True gap_mm = Failed e'"
    by blast
next
  assume d: "upload_handler lib (Some (file_bytes, name)) pressed gap_mm = Done out"
  then obtain src_doc where s: "open_as_pdf lib file_bytes name = Inr src_doc"
    and p: "process_document_to_two_up lib src_doc gap_mm = Inr out"
    by (auto simp: upload_handler_def split: sum.splits if_splits)
  from s process_Inr [OF p]
  show "\<exists>src_doc. open_as_pdf lib file_bytes name = Inr src_doc \<and>
         length out = length src_doc \<and>
         (\<forall>i<length src_doc. two_up_page lib src_doc (mm_to_points gap_mm) i = Inr (out ! i))"
    by blast
qed

theorem upload_all_or_nothing_witness:
  "open_as_pdf corrupt_lib [1, 2, 3] ''Label.PDF'' = Inl (FitzError ''cannot open'') \<and>
   upload_handler corrupt_lib (Some ([1, 2, 3], ''Label.PDF'')) True 3 =
     Failed (FitzError ''cannot open'') \<and>
   open_as_pdf (bad_page_lib three_pages 1) [1, 2, 3] ''label.pdf'' = Inr three_pages \<and>
   (1::nat) < length three_pages \<and>
   two_up_page (bad_page_lib three_pages 1) three_pages (mm_to_points 3) 1 =
     Inl (FitzError ''bad page'') \<and>
   upload_handler (bad_page_lib three_pages 1) (Some ([1, 2, 3], ''label.pdf'')) True 3 =
     Failed (FitzError ''bad page'') \<and>
   upload_handler (ok_lib [\<lparr>page_size = \<lparr>width = 100, height = 100\<rparr>, content = 0\<rparr>])
       (Some ([1, 2, 3], ''label.png'')) True 0 =
     Done [\<lparr>out_width = 200, out_height = 100,
            shown = [\<lparr>target = \<lparr>x0 = 0, y0 = 0, x1 = 100, y1 = 100\<rparr>, src_pno = 0, rotate = 90\<rparr>,
                     \<lparr>target = \<lparr>x0 = 100, y0 = 0, x1 = 200, y1 = 100\<rparr>, src_pno = 0,
                      rotate = 90\<rparr>]\<rparr>]"
  using upload_all_or_nothing [of corrupt_lib "[1, 2, 3]" "''Label.PDF''"
      "FitzError ''cannot open''" True 3 "[]" 0 "[]"]
    upload_all_or_nothing [of "bad_page_lib three_pages 1" "[1, 2, 3]" "''label.pdf''"
      "FitzError ''bad page''" True 3 three_pages 1 "[]"]
    upload_all_or_nothing [of "ok_lib [\<lparr>page_size = \<lparr>width = 100, height = 100\<rparr>, content = 0\<rparr>]"
      "[1, 2, 3]" "''label.png''" IndexError True 0 "[]" 0
      "[\<lparr>out_width = 200, out_height = 100,
            shown = [\<lparr>target = \<lparr>x0 = 0, y0 = 0, x1 = 100, y1 = 100\<rparr>, src_pno = 0, rotate = 90\<rparr>,
                     \<lparr>target = \<lparr>x0 = 100, y0 = 0, x1 = 200, y1 = 100\<rparr>, src_pno = 0,
                      rotate = 90\<rparr>]\<rparr>]"]
  by (simp add: upload_handler_def open_defs run_defs corrupt_lib_def bad_page_lib_def ok_lib_def
      three_pages_def two_up_layout_def rotated_dimensions_def mm_to_points_def MM_TO_PT_def)

text \<open>
  C10. A negative gap is not rejected: the same formulas apply, the right rectangle
  starts left of the end of the left one, and the output page is narrower than twice the
  rotated width. An exception can only come from a library call, and every page of a
  document that is produced uses the same gap in points.
\<close>

theorem negative_gap_not_rejected:
  assumes "gap_mm < 0"
  shows "(let L = two_up_layout sz (mm_to_points gap_mm)
          in out_w L = 2 * rot_w L + mm_to_points gap_mm \<and> out_h L = rot_h L \<and>
             left_rect L = \<lparr>x0 = 0, y0 = 0, x1 = rot_w L, y1 = rot_h L\<rparr> \<and>
             right_rect L = \<lparr>x0 = rot_w L + mm_to_points gap_mm, y0 = 0,
                              x1 = 2 * rot_w L + mm_to_points gap_mm, y1 = rot_h L\<rparr> \<and>
             x0 (right_rect L) < x1 (left_rect L) \<and>
             out_w L < 2 * rot_w L) \<and>
         (process_document_to_two_up lib src_doc gap_mm = Inl e \<longrightarrow>
            (\<exists>pno<length src_doc.
               let L = two_up_layout (page_size (src_doc ! pno)) (mm_to_points gap_mm)
               in new_page lib (out_w L) (out_h L) = Some e \<or>
                  show_pdf_page lib (left_rect L) src_doc pno 90 = Some e \<or>
                  show_pdf_page lib (right_rect L) src_doc pno 90 = Some e)) \<and>
         (process_document_to_two_up lib src_doc gap_mm = Inr out \<longrightarrow>
            length out = length src_doc \<and>
            (\<forall>i<length src_doc.
               let L = two_up_layout (page_size (src_doc ! i)) (mm_to_points gap_mm)
               in map target (shown (out ! i)) = [left_rect L, right_rect L] \<and>
                  x0 (right_rect L) - x1 (left_rect L) = mm_to_points gap_mm))"
proof (intro conjI impI)
  from assms have neg: "mm_to_points gap_mm < 0"
    by (simp add: mm_to_points_def MM_TO_PT_def mult_less_0_iff)
  then show "let L = two_up_layout sz (mm_to_points gap_mm)
          in out_w L = 2 * rot_w L + mm_to_points gap_mm \<and> out_h L = rot_h L \<and>
             left_rect L = \<lparr>x0 = 0, y0 = 0, x1 = rot_w L, y1 = rot_h L\<rparr> \<and>
             right_rect L = \<lparr>x0 = rot_w L + mm_to_points gap_mm, y0 = 0,
                              x1 = 2 * rot_w L + mm_to_points gap_mm, y1 = rot_h L\<rparr> \<and>
             x0 (right_rect L) < x1 (left_rect L) \<and>
             out_w L < 2 * rot_w L"
    by (simp add: two_up_layout_def rotated_dimensions_def Let_def)
next
  assume "process_document_to_two_up lib src_doc gap_mm = Inl e"
  from process_Inl [OF this] obtain pno where
    pno: "pno < length src_doc" "two_up_page lib src_doc (mm_to_points gap_mm) pno = Inl e"
    by blast
  from two_up_page_Inl [OF pno(2) pno(1)] pno(1)
  show "\<exists>pno<length src_doc.
               let L = two_up_layout (page_size (src_doc ! pno)) (mm_to_points gap_mm)
               in new_page lib (out_w L) (out_h L) = Some e \<or>
                  show_pdf_page lib (left_rect L) src_doc pno 90 = Some e \<or>
                  show_pdf_page lib (right_rect L) src_doc pno 90 = Some e"
    by blast
next
  assume ok: "process_document_to_two_up lib src_doc gap_mm = Inr out"
  show "length out = length src_doc" by (rule process_Inr(1) [OF ok])
  show "\<forall>i<length src_doc.
               let L = two_up_layout (page_size (src_doc ! i)) (mm_to_points gap_mm)
               in map target (shown (out ! i)) = [left_rect L, right_rect L] \<and>
                  x0 (right_rect L) - x1 (left_rect L) = mm_to_points gap_mm"
  proof (intro allI impI)
    fix i assume "i < length src_doc"
    from two_up_page_Inr [OF process_Inr(2) [OF ok this]]
    show "let L = two_up_layout (page_size (src_doc ! i)) (mm_to_points gap_mm)
               in map target (shown (out ! i)) = [left_rect L, right_rect L] \<and>
                  x0 (right_rect L) - x1 (left_rect L) = mm_to_points gap_mm"
      by (simp add: Let_def two_up_layout_def)
  qed
qed

theorem negative_gap_not_rejected_witness:
  "(- 1::real) < 0 \<and>
   x0 (right_rect (two_up_layout \<lparr>width = 100, height = 100\<rparr> (mm_to_points (- 1)))) <
     x1 (left_rect (two_up_layout \<lparr>width = 100, height = 100\<rparr> (mm_to_points (- 1)))) \<and>
   out_w (two_up_layout \<lparr>width = 100, height = 100\<rparr> (mm_to_points (- 1))) < 200 \<and>
   process_document_to_two_up (bad_page_lib [] 1) three_pages (- 1) =
     Inl (FitzError ''bad page'') \<and>
   process_document_to_two_up (ok_lib [])
       [\<lparr>page_size = \<lparr>width = 100, height = 100\<rparr>, content = 0\<rparr>] (- 1) =
     Inr [\<lparr>out_width = 200 + mm_to_points (- 1), out_height = 100,
           shown = [\<lparr>target = \<lparr>x0 = 0, y0 = 0, x1 = 100, y1 = 100\<rparr>, src_pno = 0, rotate = 90\<rparr>,
                    \<lparr>target = \<lparr>x0 = 100 + mm_to_points (- 1), y0 = 0,
                               x1 = 200 + mm_to_points (- 1), y1 = 100\<rparr>,
                     src_pno = 0, rotate = 90\<rparr>]\<rparr>]"
  using negative_gap_not_rejected [of "- 1" "\<lparr>width = 100, height = 100\<rparr>"
      "bad_page_lib [] 1" three_pages "FitzError ''bad page''" "[]"]
    negative_gap_not_rejected [of "- 1" "\<lparr>width = 100, height = 100\<rparr>" "ok_lib []"
      "[\<lparr>page_size = \<lparr>width = 100, height = 100\<rparr>, content = 0\<rparr>]" IndexError
      "[\<lparr>out_width = 200 + mm_to_points (- 1), out_height = 100,
           shown = [\<lparr>target = \<lparr>x0 = 0, y0 = 0, x1 = 100, y1 = 100\<rparr>, src_pno = 0, rotate = 90\<rparr>,
                    \<lparr>target = \<lparr>x0 = 100 + mm_to_points (- 1), y0 = 0,
                               x1 = 200 + mm_to_points (- 1), y1 = 100\<rparr>,
                     src_pno = 0, rotate = 90\<rparr>]\<rparr>]"]
  by (simp add: run_defs ok_lib_def bad_page_lib_def three_pages_def two_up_layout_def
      rotated_dimensions_def mm_to_points_def MM_TO_PT_def)

end
